theory Spec2Isabelle
  imports Complex_Main
begin

section \<open>Python values crossing the boundary of \<^verbatim>\<open>chatbot_server.py\<close>\<close>

text \<open>
  A Python \<^verbatim>\<open>str\<close> is a sequence of Unicode code points, and slicing and
  \<^verbatim>\<open>len\<close> count code points. A string is therefore a list of code points, each a
  natural number; \<open>str_of\<close> embeds an ASCII literal of the source.
\<close>

type_synonym pystr = "nat list"

definition str_of :: "string \<Rightarrow> pystr" where
  "str_of s = map of_char s"

text \<open>
  What \<^verbatim>\<open>json.loads\<close> produces, and what \<^verbatim>\<open>jsonify\<close> and
  \<^verbatim>\<open>requests\<close> serialise: \<^verbatim>\<open>None\<close>, \<^verbatim>\<open>bool\<close>, \<^verbatim>\<open>int\<close>,
  \<^verbatim>\<open>float\<close>, \<^verbatim>\<open>str\<close>, \<^verbatim>\<open>list\<close> and \<^verbatim>\<open>dict\<close>. A dict is the
  association list of its items in insertion order, read with \<open>map_of\<close>. A float is
  kept by its value: only whether it is zero is ever observed.
\<close>

datatype pyfloat = Finite rat | PosInf | NegInf | NaN

datatype json =
    JNull
  | JBool bool
  | JInt int
  | JFloat pyfloat
  | JStr pystr
  | JArr "json list"
  | JObj "(pystr \<times> json) list"

text \<open>The exceptions that the handlers can meet; every one is an \<^verbatim>\<open>Exception\<close>.\<close>

datatype exn =
    TypeError
  | KeyError
  | AttributeError
  | JSONDecodeError
  | BadRequest
  | UnsupportedMediaType
  | Timeout
  | ConnectionError
  | RequestException

subsection \<open>Built-in operations of the language\<close>

text \<open>\<^verbatim>\<open>bool(v)\<close>, as \<^verbatim>\<open>if v\<close>, \<^verbatim>\<open>not v\<close> and \<^verbatim>\<open>v and ...\<close> test it.\<close>

fun truthy :: "json \<Rightarrow> bool" where
  "truthy JNull = False"
| "truthy (JBool b) = b"
| "truthy (JInt i) = (i \<noteq> 0)"
| "truthy (JFloat f) = (f \<noteq> Finite 0)"
| "truthy (JStr s) = (s \<noteq> [])"
| "truthy (JArr xs) = (xs \<noteq> [])"
| "truthy (JObj d) = (d \<noteq> [])"

text \<open>\<^verbatim>\<open>len(v)\<close>: a \<^verbatim>\<open>TypeError\<close> for a value without a length.\<close>

fun py_len :: "json \<Rightarrow> exn + nat" where
  "py_len (JStr s) = Inr (length s)"
| "py_len (JArr xs) = Inr (length xs)"
| "py_len (JObj d) = Inr (length d)"
| "py_len _ = Inl TypeError"

text \<open>
  \<^verbatim>\<open>v[k]\<close> with a string key \<open>k\<close>: a dict looks the key up and raises
  \<^verbatim>\<open>KeyError\<close> when it is missing; a string or a list wants an integer index and
  every other value is not subscriptable, a \<^verbatim>\<open>TypeError\<close> each.
\<close>

fun subscript :: "json \<Rightarrow> pystr \<Rightarrow> exn + json" where
  "subscript (JObj d) k = (case map_of d k of None \<Rightarrow> Inl KeyError | Some v \<Rightarrow> Inr v)"
| "subscript _ k = Inl TypeError"

text \<open>
  \<^verbatim>\<open>v.get(k, default)\<close>: only a dict has the method, every other value raises
  \<^verbatim>\<open>AttributeError\<close>.
\<close>

fun py_get :: "json \<Rightarrow> pystr \<Rightarrow> json \<Rightarrow> exn + json" where
  "py_get (JObj d) k dflt = Inr (case map_of d k of None \<Rightarrow> dflt | Some v \<Rightarrow> v)"
| "py_get _ k dflt = Inl AttributeError"

text \<open>
  \<^verbatim>\<open>str.isspace\<close> on one code point: the whitespace of the Unicode character
  database, which is what \<^verbatim>\<open>str.strip()\<close> without an argument removes.
\<close>

definition is_space :: "nat \<Rightarrow> bool" where
  "is_space c \<longleftrightarrow>
     (9 \<le> c \<and> c \<le> 13) \<or> (28 \<le> c \<and> c \<le> 32) \<or> c = 133 \<or> c = 160 \<or> c = 5760 \<or>
     (8192 \<le> c \<and> c \<le> 8202) \<or> c = 8232 \<or> c = 8233 \<or> c = 8239 \<or> c = 8287 \<or>
     c = 12288"

definition strip_str :: "pystr \<Rightarrow> pystr" where
  "strip_str s = rev (dropWhile is_space (rev (dropWhile is_space s)))"

text \<open>\<^verbatim>\<open>v.strip()\<close>: a method of \<^verbatim>\<open>str\<close> only.\<close>

fun py_strip :: "json \<Rightarrow> exn + pystr" where
  "py_strip (JStr s) = Inr (strip_str s)"
| "py_strip _ = Inl AttributeError"

text \<open>
  \<^verbatim>\<open>v[-4:]\<close>: the last four items of a list (all of them when there are fewer), the
  last four characters of a string, each a string of length one when iterated; a dict
  cannot be sliced (\<^verbatim>\<open>TypeError\<close>, a \<^verbatim>\<open>KeyError\<close> from Python 3.12 on) and
  the remaining values are not subscriptable.
\<close>

definition last_four :: "'a list \<Rightarrow> 'a list" where
  "last_four xs = drop (length xs - 4) xs"

fun slice_last_four :: "json \<Rightarrow> exn + json list" where
  "slice_last_four (JArr xs) = Inr (last_four xs)"
| "slice_last_four (JStr s) = Inr (map (\<lambda>c. JStr [c]) (last_four s))"
| "slice_last_four _ = Inl TypeError"

text \<open>
  The replacement field \<^verbatim>\<open>{v[:300]}\<close> of an f-string: a string keeps its first 300
  code points and stands for itself; a list keeps its first 300 items and is printed by
  \<^verbatim>\<open>repr\<close>, a function of the language runtime that is taken as the parameter
  \<open>repr_list\<close>; a dict cannot be sliced and no other value is subscriptable.
\<close>

fun slice_300 :: "(json list \<Rightarrow> pystr) \<Rightarrow> json \<Rightarrow> exn + pystr" where
  "slice_300 repr_list (JStr s) = Inr (take 300 s)"
| "slice_300 repr_list (JArr xs) = Inr (repr_list (take 300 xs))"
| "slice_300 repr_list _ = Inl TypeError"

text \<open>\<^verbatim>\<open>sep.join(parts)\<close>.\<close>

fun join :: "pystr \<Rightarrow> pystr list \<Rightarrow> pystr" where
  "join sep [] = []"
| "join sep [p] = p"
| "join sep (p # q # ps) = p @ sep @ join sep (q # ps)"

section \<open>The relay\<close>

subsection \<open>Constants\<close>

definition MODEL_NAME :: pystr where
  "MODEL_NAME = str_of ''chemeng-tutor''"

definition nl :: string where
  "nl = [CHR 0x0A]"

definition SYSTEM_PROMPT :: pystr where
  "SYSTEM_PROMPT = str_of (
     ''You are an expert Chemical Engineering tutor.'' @ nl @
     nl @
     ''FORMATTING:'' @ nl @
     ''- Use LaTeX for math: $inline$ or $$display$$'' @ nl @
     ''- Use markdown: **bold**, lists, code blocks'' @ nl @
     ''- Always include units'' @ nl @
     nl @
     ''TEACHING:'' @ nl @
     ''- Be clear, accurate, and concise'' @ nl @
     ''- Provide step-by-step explanations for complex topics'' @ nl @
     ''- Give numerical examples when helpful'' @ nl @
     ''- For simple questions, answer directly'' @ nl @
     nl @
     ''THINKING (OPTIONAL):'' @ nl @
     ''- For complex multi-step problems, you MAY briefly show reasoning in <thinking> tags'' @ nl @
     ''- Keep thinking SHORT and focused on key steps'' @ nl @
     ''- For simple questions, skip thinking and answer directly'' @ nl @
     nl @
     ''RESTRICTIONS:'' @ nl @
     ''- ONLY Chemical Engineering topics'' @ nl @
     ''- If asked other topics: '' @ [CHR 0x22] @ ''I specialize in Chemical Engineering topics!'' @ [CHR 0x22] @ nl @
     nl @
     ''Maintain high accuracy while being efficient.'')"

subsection \<open>The request to the backend\<close>

record options =
  temperature :: rat
  top_p :: rat
  num_ctx :: int
  num_predict :: int
  top_k :: int

record payload =
  model :: pystr
  prompt :: pystr
  system :: pystr
  stream :: bool
  options :: options

text \<open>
  What \<^verbatim>\<open>requests.post\<close> gives back when it returns: the status code and the
  result of \<^verbatim>\<open>response.json()\<close>, which raises on a body that is not JSON.
\<close>

datatype reply = Reply (status_code: int) (body_json: "exn + json")

text \<open>
  The backend is an external collaborator: a call either raises (timeout, connection
  failure, any other exception of \<^verbatim>\<open>requests\<close>) or returns a reply.
\<close>

type_synonym backend = "payload \<Rightarrow> exn + reply"

subsection \<open>\<^verbatim>\<open>query_ollama\<close>\<close>

text \<open>One element of the list comprehension, lines 45 and 46.\<close>

definition render_turn :: "(json list \<Rightarrow> pystr) \<Rightarrow> json \<Rightarrow> exn + pystr" where
  "render_turn repr_list msg =
     (case subscript msg (str_of ''role'') of
        Inl e \<Rightarrow> Inl e
      | Inr r \<Rightarrow>
          (case subscript msg (str_of ''content'') of
             Inl e \<Rightarrow> Inl e
           | Inr c \<Rightarrow>
               (case slice_300 repr_list c of
                  Inl e \<Rightarrow> Inl e
                | Inr t \<Rightarrow>
                    Inr ((if r = JStr (str_of ''user'') then str_of ''Student'' else str_of ''Tutor'')
                         @ str_of '': '' @ t))))"

text \<open>The comprehension: the first element that raises ends it.\<close>

fun render_turns :: "(json list \<Rightarrow> pystr) \<Rightarrow> json list \<Rightarrow> exn + pystr list" where
  "render_turns repr_list [] = Inr []"
| "render_turns repr_list (msg # msgs) =
     (case render_turn repr_list msg of
        Inl e \<Rightarrow> Inl e
      | Inr t \<Rightarrow>
          (case render_turns repr_list msgs of
             Inl e \<Rightarrow> Inl e
           | Inr ts \<Rightarrow> Inr (t # ts)))"

text \<open>
  Lines 43 to 50. In \<^verbatim>\<open>conversation_history and len(conversation_history) > 0\<close> the
  length is taken only of a truthy value, and raises for \<^verbatim>\<open>True\<close> and for a number
  other than zero.
\<close>

definition full_prompt :: "(json list \<Rightarrow> pystr) \<Rightarrow> pystr \<Rightarrow> json \<Rightarrow> exn + pystr" where
  "full_prompt repr_list user_prompt conversation_history =
     (if truthy conversation_history then
        (case py_len conversation_history of
           Inl e \<Rightarrow> Inl e
         | Inr n \<Rightarrow>
             if n > 0 then
               (case slice_last_four conversation_history of
                  Inl e \<Rightarrow> Inl e
                | Inr msgs \<Rightarrow>
                    (case render_turns repr_list msgs of
                       Inl e \<Rightarrow> Inl e
                     | Inr ts \<Rightarrow>
                         Inr (str_of ''Recent context:'' @ str_of nl
                              @ join (str_of (nl @ nl)) ts
                              @ str_of (nl @ nl) @ str_of ''Student: '' @ user_prompt)))
             else Inr user_prompt)
      else Inr user_prompt)"

text \<open>Lines 52 to 64.\<close>

definition make_payload :: "pystr \<Rightarrow> payload" where
  "make_payload p =
     \<lparr> model = MODEL_NAME, prompt = p, system = SYSTEM_PROMPT, stream = False,
       options = \<lparr> temperature = 0.6, top_p = 0.9, num_ctx = 6144, num_predict = 1536,
                   top_k = 40 \<rparr> \<rparr>"

text \<open>
  Lines 74 to 80. The f-string of the log line is evaluated before the return, so a
  \<^verbatim>\<open>response\<close> field without a length raises there.
\<close>

definition read_reply :: "reply \<Rightarrow> exn + json" where
  "read_reply r =
     (if status_code r = 200 then
        (case body_json r of
           Inl e \<Rightarrow> Inl e
         | Inr b \<Rightarrow>
             (case subscript b (str_of ''response'') of
                Inl e \<Rightarrow> Inl e
              | Inr result \<Rightarrow>
                  (case py_len result of
                     Inl e \<Rightarrow> Inl e
                   | Inr n \<Rightarrow> Inr result)))
      else Inr JNull)"

text \<open>
  The body of the \<^verbatim>\<open>try\<close>: its result or the exception that leaves it, together
  with the payloads posted to the generate endpoint, in order.
\<close>

definition query_ollama_try ::
  "backend \<Rightarrow> (json list \<Rightarrow> pystr) \<Rightarrow> pystr \<Rightarrow> json \<Rightarrow> (exn + json) \<times> payload list" where
  "query_ollama_try be repr_list user_prompt conversation_history =
     (case full_prompt repr_list user_prompt conversation_history of
        Inl e \<Rightarrow> (Inl e, [])
      | Inr fp \<Rightarrow>
          (case be (make_payload fp) of
             Inl e \<Rightarrow> (Inl e, [make_payload fp])
           | Inr response \<Rightarrow> (read_reply response, [make_payload fp])))"

text \<open>\<^verbatim>\<open>except Exception\<close>: every exception becomes the result \<^verbatim>\<open>None\<close>.\<close>

definition query_ollama ::
  "backend \<Rightarrow> (json list \<Rightarrow> pystr) \<Rightarrow> pystr \<Rightarrow> json \<Rightarrow> json \<times> payload list" where
  "query_ollama be repr_list user_prompt conversation_history =
     (case query_ollama_try be repr_list user_prompt conversation_history of
        (Inl e, posted) \<Rightarrow> (JNull, posted)
      | (Inr result, posted) \<Rightarrow> (result, posted))"

subsection \<open>\<^verbatim>\<open>health_check\<close>\<close>

text \<open>
  What \<^verbatim>\<open>requests.get\<close> on the status endpoint does: it raises an exception, kept
  with its text \<^verbatim>\<open>str(e)\<close>, or returns a response, kept by its status code.
\<close>

datatype probe = ProbeRaises exn pystr | ProbeStatus int

text \<open>A handler's answer: the JSON body and the HTTP status.\<close>

type_synonym answer = "json \<times> int"

definition health_check :: "probe \<Rightarrow> answer" where
  "health_check test_response =
     (case test_response of
        ProbeStatus code \<Rightarrow>
          if code = 200 then
            (JObj [(str_of ''status'', JStr (str_of ''healthy'')),
                   (str_of ''ollama'', JStr (str_of ''connected'')),
                   (str_of ''model'', JStr MODEL_NAME)], 200)
          else
            (JObj [(str_of ''status'', JStr (str_of ''unhealthy'')),
                   (str_of ''ollama'', JStr (str_of ''disconnected''))], 503)
      | ProbeRaises e msg \<Rightarrow>
          (JObj [(str_of ''status'', JStr (str_of ''error'')),
                 (str_of ''message'', JStr msg)], 503))"

subsection \<open>\<^verbatim>\<open>chat\<close>\<close>

text \<open>
  \<^verbatim>\<open>request.json\<close> raises for a body that is not JSON (and, depending on the
  version of the framework, for a content type that is not JSON), and otherwise gives
  the decoded body. The body of the \<^verbatim>\<open>try\<close>, lines 111 to 130:
\<close>

definition chat_try ::
  "backend \<Rightarrow> (json list \<Rightarrow> pystr) \<Rightarrow> exn + json \<Rightarrow> (exn + answer) \<times> payload list" where
  "chat_try be repr_list request_json =
     (case request_json of
        Inl e \<Rightarrow> (Inl e, [])
      | Inr data \<Rightarrow>
          (case py_get data (str_of ''message'') (JStr []) of
             Inl e \<Rightarrow> (Inl e, [])
           | Inr m \<Rightarrow>
               (case py_strip m of
                  Inl e \<Rightarrow> (Inl e, [])
                | Inr user_message \<Rightarrow>
                    (case py_get data (str_of ''history'') (JArr []) of
                       Inl e \<Rightarrow> (Inl e, [])
                     | Inr history \<Rightarrow>
                         if user_message = [] then
                           (Inr (JObj [(str_of ''error'', JStr (str_of ''Empty message''))], 400), [])
                         else
                           (case query_ollama be repr_list user_message history of
                              (bot_response, posted) \<Rightarrow>
                                if truthy bot_response then
                                  (Inr (JObj [(str_of ''response'', bot_response),
                                              (str_of ''model'', JStr MODEL_NAME)], 200), posted)
                                else
                                  (Inr (JObj [(str_of ''error'',
                                               JStr (str_of ''Failed to generate response''))], 500),
                                   posted))))))"

text \<open>Lines 132 to 134: any exception becomes the internal error.\<close>

definition chat :: "backend \<Rightarrow> (json list \<Rightarrow> pystr) \<Rightarrow> exn + json \<Rightarrow> answer \<times> payload list" where
  "chat be repr_list request_json =
     (case chat_try be repr_list request_json of
        (Inl e, posted) \<Rightarrow> ((JObj [(str_of ''error'', JStr (str_of ''Internal error''))], 500), posted)
      | (Inr a, posted) \<Rightarrow> (a, posted))"

text \<open>\<^verbatim>\<open>data.get('history', [])\<close> on a request body that is a dict with the items \<open>d\<close>.\<close>

definition history_of :: "(pystr \<times> json) list \<Rightarrow> json" where
  "history_of d = (case map_of d (str_of ''history'') of None \<Rightarrow> JArr [] | Some v \<Rightarrow> v)"

subsection \<open>Sample collaborators\<close>



definition backend_ok :: backend where
  "backend_ok p = Inr (Reply 200 (Inr (JObj [(str_of ''response'', JStr (str_of ''PV = nRT''))])))"

definition backend_silent :: backend where
  "backend_silent p = Inr (Reply 200 (Inr (JObj [(str_of ''response'', JStr [])])))"




definition repr_stub :: "json list \<Rightarrow> pystr" where
  "repr_stub xs = str_of ''[...]''"

text \<open>The requests \<^verbatim>\<open>{"message": "hi"}\<close> and
  \<^verbatim>\<open>{"message": "hi", "history": turns}\<close>, and a turn with a role and a text.\<close>

definition hi_request :: "exn + json" where
  "hi_request = Inr (JObj [(str_of ''message'', JStr (str_of ''hi''))])"

definition turns_request :: "json list \<Rightarrow> exn + json" where
  "turns_request turns =
     Inr (JObj [(str_of ''message'', JStr (str_of ''hi'')), (str_of ''history'', JArr turns)])"

definition turn :: "string \<Rightarrow> pystr \<Rightarrow> json" where
  "turn r c = JObj [(str_of ''role'', JStr (str_of r)), (str_of ''content'', JStr c)]"



section \<open>Properties\<close>

subsection \<open>Auxiliary facts\<close>

lemma str_of_eq_iff [simp]: "str_of a = str_of b \<longleftrightarrow> a = b"
  unfolding str_of_def by (rule inj_map_eq_map) (rule inj_of_char)

lemma strip_str_blank:
  assumes "\<forall>c\<in>set s. is_space c"
  shows "strip_str s = []"
proof -
  from assms have blank: "dropWhile is_space s = []"
    by simp
  show ?thesis
    unfolding strip_str_def blank by simp
qed

lemma str_of_Nil_iff [simp]: "str_of s = [] \<longleftrightarrow> s = []"
  by (simp add: str_of_def)

lemma strip_str_unspaced:
  assumes "m \<noteq> []" and "\<not> is_space (hd m)" and "\<not> is_space (last m)"
  shows "strip_str m = m"
proof -
  from assms have front: "dropWhile is_space m = m"
    by (cases m) simp_all
  from assms have "dropWhile is_space (rev m) = rev m"
    by (cases "rev m") (simp_all add: last_rev [symmetric] hd_rev)
  with front show ?thesis
    by (simp add: strip_str_def)
qed

text \<open>What the handler does once the message is a string that is not blank.\<close>

lemma chat_with_message:
  assumes "map_of d (str_of ''message'') = Some (JStr m)" and "strip_str m \<noteq> []"
  shows "snd (chat be repr_list (Inr (JObj d))) =
           snd (query_ollama be repr_list (strip_str m) (history_of d))"
    and "fst (chat be repr_list (Inr (JObj d))) =
          (if truthy (fst (query_ollama be repr_list (strip_str m) (history_of d))) then
             (JObj [(str_of ''response'', fst (query_ollama be repr_list (strip_str m) (history_of d))),
                    (str_of ''model'', JStr MODEL_NAME)], 200)
           else (JObj [(str_of ''error'', JStr (str_of ''Failed to generate response''))], 500))"
  using assms by (simp_all add: chat_def chat_try_def history_of_def split: prod.splits)

text \<open>At most one payload is posted, and only when the prompt could be built.\<close>

lemma query_ollama_posted:
  "snd (query_ollama be repr_list u h) =
     (case full_prompt repr_list u h of Inl e \<Rightarrow> [] | Inr fp \<Rightarrow> [make_payload fp])"
  by (simp add: query_ollama_def query_ollama_try_def split: sum.splits prod.splits)

text \<open>Whatever is posted comes from a request with a message that is not blank.\<close>

lemma chat_posted:
  assumes "p \<in> set (snd (chat be repr_list req))"
  shows "\<exists>d m. req = Inr (JObj d) \<and> map_of d (str_of ''message'') = Some (JStr m)
           \<and> strip_str m \<noteq> []
           \<and> p \<in> set (snd (query_ollama be repr_list (strip_str m) (history_of d)))"
proof (cases req)
  case (Inl e)
  with assms show ?thesis by (simp add: chat_def chat_try_def)
next
  case (Inr data)
  show ?thesis
  proof (cases data)
    case (JObj d)
    show ?thesis
    proof (cases "map_of d (str_of ''message'')")
      case None
      with assms Inr JObj show ?thesis by (simp add: chat_def chat_try_def strip_str_def)
    next
      case (Some v)
      show ?thesis
      proof (cases v)
        case (JStr m)
        show ?thesis
        proof (cases "strip_str m = []")
          case True
          with assms Inr JObj Some JStr show ?thesis by (simp add: chat_def chat_try_def)
        next
          case False
          with assms Inr JObj Some JStr show ?thesis
            by (simp add: chat_with_message)
        qed
      qed (use assms Inr JObj Some in \<open>simp_all add: chat_def chat_try_def\<close>)
    qed
  qed (use assms Inr in \<open>simp_all add: chat_def chat_try_def\<close>)
qed

lemma query_ollama_result:
  assumes "full_prompt repr_list u h = Inr fp"
  shows "fst (query_ollama be repr_list u h) =
           (case be (make_payload fp) of
              Inl e \<Rightarrow> JNull
            | Inr r \<Rightarrow> (case read_reply r of Inl e \<Rightarrow> JNull | Inr v \<Rightarrow> v))"
  using assms by (simp add: query_ollama_def query_ollama_try_def split: sum.splits)

lemma query_ollama_no_prompt:
  assumes "full_prompt repr_list u h = Inl e"
  shows "query_ollama be repr_list u h = (JNull, [])"
  using assms by (simp add: query_ollama_def query_ollama_try_def)

text \<open>The answer of the handler, once a payload has been posted, in terms of the reply to it.\<close>

lemma chat_answer_posted:
  assumes "p \<in> set (snd (chat be repr_list req))"
  shows "fst (chat_try be repr_list req) = Inr (fst (chat be repr_list req))"
    and "fst (chat be repr_list req) =
          (if truthy (case be p of Inl e \<Rightarrow> JNull
                      | Inr r \<Rightarrow> (case read_reply r of Inl e \<Rightarrow> JNull | Inr v \<Rightarrow> v)) then
             (JObj [(str_of ''response'',
                       (case be p of Inl e \<Rightarrow> JNull
                        | Inr r \<Rightarrow> (case read_reply r of Inl e \<Rightarrow> JNull | Inr v \<Rightarrow> v))),
                    (str_of ''model'', JStr MODEL_NAME)], 200)
           else (JObj [(str_of ''error'', JStr (str_of ''Failed to generate response''))], 500))"
proof -
  from chat_posted [OF assms] obtain d m where
    req: "req = Inr (JObj d)" and msg: "map_of d (str_of ''message'') = Some (JStr m)"
    and full: "strip_str m \<noteq> []"
    and p: "p \<in> set (snd (query_ollama be repr_list (strip_str m) (history_of d)))"
    by blast
  from p have "\<exists>fp. full_prompt repr_list (strip_str m) (history_of d) = Inr fp \<and> p = make_payload fp"
    by (cases "full_prompt repr_list (strip_str m) (history_of d)")
      (simp_all add: query_ollama_posted)
  then obtain fp where fp: "full_prompt repr_list (strip_str m) (history_of d) = Inr fp"
    and pfp: "p = make_payload fp"
    by blast
  show "fst (chat be repr_list req) =
          (if truthy (case be p of Inl e \<Rightarrow> JNull
                      | Inr r \<Rightarrow> (case read_reply r of Inl e \<Rightarrow> JNull | Inr v \<Rightarrow> v)) then
             (JObj [(str_of ''response'',
                       (case be p of Inl e \<Rightarrow> JNull
                        | Inr r \<Rightarrow> (case read_reply r of Inl e \<Rightarrow> JNull | Inr v \<Rightarrow> v))),
                    (str_of ''model'', JStr MODEL_NAME)], 200)
           else (JObj [(str_of ''error'', JStr (str_of ''Failed to generate response''))], 500))"
    unfolding req chat_with_message(2) [OF msg full] query_ollama_result [OF fp] pfp ..
  from msg full show "fst (chat_try be repr_list req) = Inr (fst (chat be repr_list req))"
    unfolding req by (simp add: chat_def chat_try_def split: prod.splits)
qed

text \<open>What is posted for the request \<^verbatim>\<open>{"message": "hi"}\<close>, whatever the backend.\<close>

lemma hi_request_posted:
  "snd (chat be repr_stub hi_request) = [make_payload (str_of ''hi'')]"
  by (simp add: hi_request_def chat_def chat_try_def query_ollama_def query_ollama_try_def
      full_prompt_def strip_str_def is_space_def str_of_def split: sum.splits prod.splits)



lemma render_turns_Inl:
  assumes "t \<in> set ts" and "render_turn repr_list t = Inl e"
  shows "\<exists>e'. render_turns repr_list ts = Inl e'"
  using assms by (induction ts) (auto split: sum.splits)




lemma full_prompt_turns:
  assumes "turns \<noteq> []"
  shows "full_prompt repr_list u (JArr turns) =
     (case render_turns repr_list (last_four turns) of
        Inl e \<Rightarrow> Inl e
      | Inr ts \<Rightarrow> Inr (str_of ''Recent context:'' @ str_of nl @ join (str_of (nl @ nl)) ts
                       @ str_of (nl @ nl) @ str_of ''Student: '' @ u))"
  using assms by (simp add: full_prompt_def)



subsection \<open>Validation of the message\<close>

text \<open>
  C1. A chat request whose message is the empty string or consists of whitespace only is
  answered with the validation error \<^verbatim>\<open>Empty message\<close> and status 400, and nothing is
  posted to the generate endpoint.
\<close>

theorem chat_blank_message_rejected:
  assumes "map_of d (str_of ''message'') = Some (JStr m)"
    and "\<forall>c\<in>set m. is_space c"
  shows "chat be repr_list (Inr (JObj d)) =
           ((JObj [(str_of ''error'', JStr (str_of ''Empty message''))], 400), [])"
  using assms by (simp add: chat_def chat_try_def strip_str_blank)

theorem chat_blank_message_rejected_witness:
  "map_of [(str_of ''message'', JStr [32, 9, 10])] (str_of ''message'') = Some (JStr [32, 9, 10])
   \<and> is_space 32 \<and> is_space 9 \<and> is_space 10
   \<and> chat backend_ok repr_stub (Inr (JObj [(str_of ''message'', JStr [32, 9, 10])])) =
           ((JObj [(str_of ''error'', JStr (str_of ''Empty message''))], 400), [])"
  using chat_blank_message_rejected
    [of "[(str_of ''message'', JStr [32, 9, 10])]" "[32, 9, 10]" backend_ok repr_stub]
  by (simp add: is_space_def)

subsection \<open>The prompt\<close>

text \<open>
  C3, as the code has it. For a chat request whose message is not blank and whose history
  is absent or the empty list, exactly one payload is posted and its prompt is the
  message without its leading and trailing whitespace; it is the message itself when the
  message neither starts nor ends with whitespace.
\<close>

theorem chat_prompt_without_history:
  assumes "map_of d (str_of ''message'') = Some (JStr m)" and "strip_str m \<noteq> []"
    and "map_of d (str_of ''history'') = None \<or> map_of d (str_of ''history'') = Some (JArr [])"
  shows "map prompt (snd (chat be repr_list (Inr (JObj d)))) = [strip_str m]
         \<and> (\<not> is_space (hd m) \<and> \<not> is_space (last m) \<longrightarrow>
              map prompt (snd (chat be repr_list (Inr (JObj d)))) = [m])"
proof -
  from assms(3)
  have "full_prompt repr_list (strip_str m) (history_of d) = Inr (strip_str m)"
    by (auto simp: full_prompt_def history_of_def)
  then have "snd (chat be repr_list (Inr (JObj d))) = [make_payload (strip_str m)]"
    by (simp add: chat_with_message(1) [OF assms(1,2)] query_ollama_posted)
  then have sent: "map prompt (snd (chat be repr_list (Inr (JObj d)))) = [strip_str m]"
    by (simp add: make_payload_def)
  from assms(2) have "m \<noteq> []"
    by (auto simp: strip_str_def)
  with sent show ?thesis
    by (auto simp: strip_str_unspaced)
qed

text \<open>The request \<^verbatim>\<open>{"message": "hi "}\<close>: the prompt posted is \<^verbatim>\<open>"hi"\<close>.\<close>

theorem chat_prompt_without_history_witness:
  "map_of [(str_of ''message'', JStr (str_of ''hi ''))] (str_of ''message'') = Some (JStr (str_of ''hi ''))
   \<and> strip_str (str_of ''hi '') \<noteq> []
   \<and> map_of [(str_of ''message'', JStr (str_of ''hi ''))] (str_of ''history'') = None
   \<and> map prompt (snd (chat backend_ok repr_stub
        (Inr (JObj [(str_of ''message'', JStr (str_of ''hi ''))])))) = [str_of ''hi'']"
proof -
  have stripped: "strip_str (str_of ''hi '') = str_of ''hi''"
    by (simp add: strip_str_def is_space_def str_of_def)
  show ?thesis
    using chat_prompt_without_history
      [of "[(str_of ''message'', JStr (str_of ''hi ''))]" "str_of ''hi ''" backend_ok repr_stub]
    by (simp add: stripped)
qed

text \<open>
  C3 as it is worded, with the prompt equal to the message verbatim, fails on the request
  \<^verbatim>\<open>{"message": " hi"}\<close>: line 112 strips the message before it is passed on, so the
  prompt posted is \<^verbatim>\<open>"hi"\<close> and not \<^verbatim>\<open>" hi"\<close>.
\<close>

theorem chat_prompt_not_verbatim:
  "map prompt (snd (chat backend_ok repr_stub
      (Inr (JObj [(str_of ''message'', JStr (str_of '' hi''))])))) = [str_of ''hi'']
   \<and> map prompt (snd (chat backend_ok repr_stub
      (Inr (JObj [(str_of ''message'', JStr (str_of '' hi''))])))) \<noteq> [str_of '' hi'']"
  by (simp add: chat_def chat_try_def query_ollama_def query_ollama_try_def full_prompt_def
      backend_ok_def read_reply_def make_payload_def strip_str_def is_space_def str_of_def)

subsection \<open>Requests that cannot be read\<close>

text \<open>
  C9. When the body of the request is not valid JSON, so that \<^verbatim>\<open>request.json\<close>
  raises, or when the message field is present and is not a string, the handler answers
  with the generic \<^verbatim>\<open>Internal error\<close> and status 500, not with the validation error
  of status 400, and nothing is posted to the generate endpoint.
\<close>

theorem chat_unreadable_message_internal_error:
  assumes "req = Inl e \<or>
           (req = Inr (JObj d) \<and> map_of d (str_of ''message'') = Some v \<and> (\<forall>s. v \<noteq> JStr s))"
  shows "chat be repr_list req =
           ((JObj [(str_of ''error'', JStr (str_of ''Internal error''))], 500), [])"
  using assms
proof
  assume "req = Inl e"
  then show ?thesis by (simp add: chat_def chat_try_def)
next
  assume "req = Inr (JObj d) \<and> map_of d (str_of ''message'') = Some v \<and> (\<forall>s. v \<noteq> JStr s)"
  then show ?thesis by (cases v) (simp_all add: chat_def chat_try_def)
qed

text \<open>A body that is not JSON, and the request \<^verbatim>\<open>{"message": 42}\<close>.\<close>

theorem chat_unreadable_message_internal_error_witness:
  "chat backend_ok repr_stub (Inl BadRequest) =
     ((JObj [(str_of ''error'', JStr (str_of ''Internal error''))], 500), [])
   \<and> map_of [(str_of ''message'', JInt 42)] (str_of ''message'') = Some (JInt 42)
   \<and> chat backend_ok repr_stub (Inr (JObj [(str_of ''message'', JInt 42)])) =
     ((JObj [(str_of ''error'', JStr (str_of ''Internal error''))], 500), [])"
  using chat_unreadable_message_internal_error
      [of "Inl BadRequest" BadRequest "[]" JNull backend_ok repr_stub]
    chat_unreadable_message_internal_error
      [of "Inr (JObj [(str_of ''message'', JInt 42)])" BadRequest
          "[(str_of ''message'', JInt 42)]" "JInt 42" backend_ok repr_stub]
  by simp

subsection \<open>The payload\<close>

text \<open>
  C7. Whatever the message and the history, a payload posted to the generate endpoint,
  by \<^verbatim>\<open>query_ollama\<close> on any arguments or by the chat handler on any request,
  carries the fixed model identifier, the fixed system instruction and the fixed sampling
  parameters; only its prompt depends on the input.
\<close>

theorem posted_payload_fixed:
  assumes "p \<in> set (snd (query_ollama be repr_list user_prompt conversation_history))
           \<or> p \<in> set (snd (chat be repr_list req))"
  shows "p = \<lparr> model = MODEL_NAME, prompt = prompt p, system = SYSTEM_PROMPT, stream = False,
               options = \<lparr> temperature = 0.6, top_p = 0.9, num_ctx = 6144, num_predict = 1536,
                           top_k = 40 \<rparr> \<rparr>"
proof -
  have fixed: "q = \<lparr> model = MODEL_NAME, prompt = prompt q, system = SYSTEM_PROMPT, stream = False,
               options = \<lparr> temperature = 0.6, top_p = 0.9, num_ctx = 6144, num_predict = 1536,
                           top_k = 40 \<rparr> \<rparr>"
    if "q \<in> set (snd (query_ollama be repr_list u h))" for q u h
    using that by (auto simp: query_ollama_posted make_payload_def split: sum.splits)
  from assms show ?thesis
  proof
    assume "p \<in> set (snd (query_ollama be repr_list user_prompt conversation_history))"
    then show ?thesis by (rule fixed)
  next
    assume "p \<in> set (snd (chat be repr_list req))"
    then obtain d m where "p \<in> set (snd (query_ollama be repr_list (strip_str m) (history_of d)))"
      using chat_posted by blast
    then show ?thesis by (rule fixed)
  qed
qed

text \<open>The payload posted for the request \<^verbatim>\<open>{"message": "hi"}\<close>.\<close>

theorem posted_payload_fixed_witness:
  "snd (chat backend_ok repr_stub (Inr (JObj [(str_of ''message'', JStr (str_of ''hi''))]))) =
     [\<lparr> model = MODEL_NAME, prompt = str_of ''hi'', system = SYSTEM_PROMPT, stream = False,
               options = \<lparr> temperature = 0.6, top_p = 0.9, num_ctx = 6144, num_predict = 1536,
                           top_k = 40 \<rparr> \<rparr>]"
proof -
  have posted: "snd (chat backend_ok repr_stub (Inr (JObj [(str_of ''message'', JStr (str_of ''hi''))])))
      = [make_payload (str_of ''hi'')]"
    by (simp add: chat_def chat_try_def query_ollama_def query_ollama_try_def full_prompt_def
      backend_ok_def read_reply_def strip_str_def is_space_def str_of_def)
  show ?thesis
    using posted_payload_fixed [of "make_payload (str_of ''hi'')" backend_ok repr_stub "[]" JNull
        "Inr (JObj [(str_of ''message'', JStr (str_of ''hi''))])"]
    by (simp add: posted make_payload_def)
qed

subsection \<open>The health probe\<close>

text \<open>
  C6. The health endpoint answers with status 200, and the report \<^verbatim>\<open>healthy\<close>,
  exactly when the call to the status endpoint of the backend returns with HTTP status
  200. Every other outcome, an exception such as an unreachable backend included, is
  answered with status 503 and the report \<^verbatim>\<open>unhealthy\<close> or \<^verbatim>\<open>error\<close>.
\<close>

theorem health_check_healthy_iff:
  "(snd (health_check r) = 200 \<longleftrightarrow> r = ProbeStatus 200)
   \<and> (r = ProbeStatus 200 \<longrightarrow>
        health_check r =
          (JObj [(str_of ''status'', JStr (str_of ''healthy'')),
                 (str_of ''ollama'', JStr (str_of ''connected'')),
                 (str_of ''model'', JStr MODEL_NAME)], 200))
   \<and> (r \<noteq> ProbeStatus 200 \<longrightarrow>
        snd (health_check r) = 503
        \<and> (subscript (fst (health_check r)) (str_of ''status'') = Inr (JStr (str_of ''unhealthy''))
           \<or> subscript (fst (health_check r)) (str_of ''status'') = Inr (JStr (str_of ''error''))))"
  by (cases r) (simp_all add: health_check_def)

text \<open>A backend that answers 200, one that answers 500 and one that cannot be reached.\<close>

theorem health_check_healthy_iff_witness:
  "health_check (ProbeStatus 200) =
          (JObj [(str_of ''status'', JStr (str_of ''healthy'')),
                 (str_of ''ollama'', JStr (str_of ''connected'')),
                 (str_of ''model'', JStr MODEL_NAME)], 200)
   \<and> snd (health_check (ProbeStatus 500)) = 503
   \<and> subscript (fst (health_check (ProbeStatus 500))) (str_of ''status'') = Inr (JStr (str_of ''unhealthy''))
   \<and> snd (health_check (ProbeRaises ConnectionError (str_of ''Connection refused''))) = 503
   \<and> subscript (fst (health_check (ProbeRaises ConnectionError (str_of ''Connection refused''))))
        (str_of ''status'') = Inr (JStr (str_of ''error''))"
  using health_check_healthy_iff [of "ProbeStatus 200"]
    health_check_healthy_iff [of "ProbeStatus 500"]
    health_check_healthy_iff [of "ProbeRaises ConnectionError (str_of ''Connection refused'')"]
  by (simp add: health_check_def)

subsection \<open>Answers of the backend\<close>

text \<open>
  C5, as the code has it. When a payload was posted for a chat request and the backend
  answered it with HTTP status 200 and a JSON object whose \<^verbatim>\<open>response\<close> field is
  a text that is not empty, the handler answers with status 200, that text and the fixed
  model identifier.
\<close>

theorem chat_success:
  assumes "p \<in> set (snd (chat be repr_list req))"
    and "be p = Inr (Reply 200 (Inr (JObj b)))"
    and "map_of b (str_of ''response'') = Some (JStr text)"
    and "text \<noteq> []"
  shows "fst (chat be repr_list req) =
           (JObj [(str_of ''response'', JStr text), (str_of ''model'', JStr MODEL_NAME)], 200)"
  using assms(2-4) by (simp add: chat_answer_posted(2) [OF assms(1)] read_reply_def)

text \<open>The request \<^verbatim>\<open>{"message": "hi"}\<close> and a backend that answers \<^verbatim>\<open>PV = nRT\<close>.\<close>

theorem chat_success_witness:
  "snd (chat backend_ok repr_stub hi_request) = [make_payload (str_of ''hi'')]
   \<and> backend_ok (make_payload (str_of ''hi'')) =
       Inr (Reply 200 (Inr (JObj [(str_of ''response'', JStr (str_of ''PV = nRT''))])))
   \<and> fst (chat backend_ok repr_stub hi_request) =
       (JObj [(str_of ''response'', JStr (str_of ''PV = nRT'')),
              (str_of ''model'', JStr MODEL_NAME)], 200)"
  using chat_success [of "make_payload (str_of ''hi'')" backend_ok repr_stub hi_request
      "[(str_of ''response'', JStr (str_of ''PV = nRT''))]" "str_of ''PV = nRT''"]
  by (simp add: hi_request_posted backend_ok_def)

text \<open>
  C5 as it is worded, for every well-formed body, fails when the generated text is the
  empty string: line 122 tests the truth value of the text, so the handler answers with
  the error of status 500.
\<close>

theorem chat_success_empty_text_counterexample:
  "snd (chat backend_silent repr_stub hi_request) = [make_payload (str_of ''hi'')]
   \<and> backend_silent (make_payload (str_of ''hi'')) =
       Inr (Reply 200 (Inr (JObj [(str_of ''response'', JStr [])])))
   \<and> fst (chat backend_silent repr_stub hi_request) =
       (JObj [(str_of ''error'', JStr (str_of ''Failed to generate response''))], 500)"
  by (simp add: hi_request_def chat_def chat_try_def query_ollama_def query_ollama_try_def
      full_prompt_def strip_str_def is_space_def str_of_def backend_silent_def read_reply_def)

text \<open>
  C8. When the backend answers a posted payload with HTTP status 200 and a body whose
  generated text is the empty string, the handler answers with the generic error
  \<^verbatim>\<open>Failed to generate response\<close> and status 500, not with a success.
\<close>

theorem chat_empty_text_fails:
  assumes "p \<in> set (snd (chat be repr_list req))"
    and "be p = Inr (Reply 200 (Inr (JObj b)))"
    and "map_of b (str_of ''response'') = Some (JStr [])"
  shows "fst (chat be repr_list req) =
           (JObj [(str_of ''error'', JStr (str_of ''Failed to generate response''))], 500)"
  using assms(2-3) by (simp add: chat_answer_posted(2) [OF assms(1)] read_reply_def)

text \<open>The request \<^verbatim>\<open>{"message": "hi"}\<close> and a backend that answers with an empty text.\<close>

theorem chat_empty_text_fails_witness:
  "snd (chat backend_silent repr_stub hi_request) = [make_payload (str_of ''hi'')]
   \<and> fst (chat backend_silent repr_stub hi_request) =
       (JObj [(str_of ''error'', JStr (str_of ''Failed to generate response''))], 500)"
  using chat_empty_text_fails [of "make_payload (str_of ''hi'')" backend_silent repr_stub hi_request
      "[(str_of ''response'', JStr [])]"]
  by (simp add: hi_request_posted backend_silent_def)




subsection \<open>Turns that cannot be rendered\<close>

text \<open>
  C10. When the message is not blank and one of the last four turns of the history is an
  object without a \<^verbatim>\<open>role\<close> key, without a \<^verbatim>\<open>content\<close> key, or with a
  \<^verbatim>\<open>content\<close> that cannot be sliced (neither a string nor a list), nothing is
  posted to the generate endpoint, and the handler still answers with the generic error
  \<^verbatim>\<open>Failed to generate response\<close> and status 500, as for a failure of the backend.
\<close>

theorem chat_malformed_turn:
  assumes "map_of d (str_of ''message'') = Some (JStr m)" and "strip_str m \<noteq> []"
    and "map_of d (str_of ''history'') = Some (JArr turns)"
    and "t \<in> set (last_four turns)" and "t = JObj kvs"
    and "map_of kvs (str_of ''role'') = None
         \<or> map_of kvs (str_of ''content'') = None
         \<or> (map_of kvs (str_of ''content'') = Some c \<and> (\<forall>s. c \<noteq> JStr s) \<and> (\<forall>xs. c \<noteq> JArr xs))"
  shows "chat be repr_list (Inr (JObj d)) =
           ((JObj [(str_of ''error'', JStr (str_of ''Failed to generate response''))], 500), [])"
proof -
  have "\<exists>e. render_turn repr_list t = Inl e"
    using assms(6)
  proof (elim disjE conjE)
    assume "map_of kvs (str_of ''content'') = Some c" and "\<forall>s. c \<noteq> JStr s" and "\<forall>xs. c \<noteq> JArr xs"
    then show ?thesis
      unfolding \<open>t = JObj kvs\<close>
      by (cases c) (simp_all add: render_turn_def split: option.splits)
  qed (simp_all add: \<open>t = JObj kvs\<close> render_turn_def split: option.splits)
  with assms(4) obtain e where "render_turns repr_list (last_four turns) = Inl e"
    using render_turns_Inl by blast
  moreover from assms(4) have "turns \<noteq> []"
    by (auto simp: last_four_def)
  ultimately have "\<exists>e. full_prompt repr_list (strip_str m) (history_of d) = Inl e"
    using assms(3) by (simp add: full_prompt_turns history_of_def)
  then obtain e' where "full_prompt repr_list (strip_str m) (history_of d) = Inl e'" ..
  then have none: "query_ollama be repr_list (strip_str m) (history_of d) = (JNull, [])"
    by (rule query_ollama_no_prompt)
  have "fst (chat be repr_list (Inr (JObj d))) =
           (JObj [(str_of ''error'', JStr (str_of ''Failed to generate response''))], 500)"
    and "snd (chat be repr_list (Inr (JObj d))) = []"
    by (simp_all add: chat_with_message [OF assms(1,2)] none)
  then show ?thesis
    by (simp add: prod_eq_iff)
qed

text \<open>
  A history whose first turn has no \<^verbatim>\<open>content\<close>, and one whose only turn has the
  number 7 as \<^verbatim>\<open>content\<close>, with a backend that would answer.
\<close>

theorem chat_malformed_turn_witness:
  "chat backend_ok repr_stub
     (turns_request [JObj [(str_of ''role'', JStr (str_of ''user''))], turn ''assistant'' (str_of ''ok'')]) =
     ((JObj [(str_of ''error'', JStr (str_of ''Failed to generate response''))], 500), [])
   \<and> chat backend_ok repr_stub
     (turns_request [JObj [(str_of ''role'', JStr (str_of ''user'')), (str_of ''content'', JInt 7)]]) =
     ((JObj [(str_of ''error'', JStr (str_of ''Failed to generate response''))], 500), [])"
proof -
  have stripped: "strip_str (str_of ''hi'') \<noteq> []"
    by (simp add: strip_str_def is_space_def str_of_def)
  have no_content: "map_of [(str_of ''role'', JStr (str_of ''user''))] (str_of ''role'') = None
      \<or> map_of [(str_of ''role'', JStr (str_of ''user''))] (str_of ''content'') = None
      \<or> (map_of [(str_of ''role'', JStr (str_of ''user''))] (str_of ''content'') = Some JNull
          \<and> (\<forall>s. JNull \<noteq> JStr s) \<and> (\<forall>xs. JNull \<noteq> JArr xs))"
    by simp
  have number: "map_of [(str_of ''role'', JStr (str_of ''user'')), (str_of ''content'', JInt 7)]
         (str_of ''role'') = None
      \<or> map_of [(str_of ''role'', JStr (str_of ''user'')), (str_of ''content'', JInt 7)]
         (str_of ''content'') = None
      \<or> (map_of [(str_of ''role'', JStr (str_of ''user'')), (str_of ''content'', JInt 7)]
         (str_of ''content'') = Some (JInt 7)
          \<and> (\<forall>s. JInt 7 \<noteq> JStr s) \<and> (\<forall>xs. JInt 7 \<noteq> JArr xs))"
    by simp
  have first: "JObj [(str_of ''role'', JStr (str_of ''user''))]
      \<in> set (last_four [JObj [(str_of ''role'', JStr (str_of ''user''))],
                         turn ''assistant'' (str_of ''ok'')])"
    by (simp add: last_four_def)
  have only: "JObj [(str_of ''role'', JStr (str_of ''user'')), (str_of ''content'', JInt 7)]
      \<in> set (last_four [JObj [(str_of ''role'', JStr (str_of ''user'')), (str_of ''content'', JInt 7)]])"
    by (simp add: last_four_def)
  show ?thesis
    unfolding turns_request_def
    by (intro conjI)
      (rule chat_malformed_turn [OF _ stripped _ first refl no_content], simp, simp,
       rule chat_malformed_turn [OF _ stripped _ only refl number], simp, simp)
qed

subsection \<open>The prompt with a history\<close>



end
